theory Spec2Isabelle
  imports Complex_Main
begin

section \<open>Python values, exceptions and numeric helpers\<close>

text \<open>
  The churn / LTV service is written in Python on top of pandas, numpy and scikit-learn.
  Python floats are modelled as \<^typ>\<open>real\<close> numbers (exact arithmetic, no NaN and no
  infinities in the data); decimal literals of the source such as \<open>0.7\<close> are the
  corresponding rationals.  An exception is a value \<open>PyError cls msg\<close>; a function that
  may raise returns \<open>exn + 'a\<close> with \<open>Inl\<close> for the raised exception.
\<close>

datatype exn = PyError (exn_class: string) (exn_str: string)

definition bindE :: "exn + 'a \<Rightarrow> ('a \<Rightarrow> exn + 'b) \<Rightarrow> exn + 'b" where
  "bindE m f = (case m of Inl e \<Rightarrow> Inl e | Inr x \<Rightarrow> f x)"

text \<open>
  \<open>round(x, n)\<close> of Python and \<open>.round(n)\<close> of numpy round to \<open>n\<close> decimals, ties to
  the even neighbour.
\<close>

definition round_half_even :: "real \<Rightarrow> int" where
  "round_half_even y =
     (let f = \<lfloor>y\<rfloor>; d = y - of_int f
      in if d < 1/2 then f else if 1/2 < d then f + 1 else if even f then f else f + 1)"

definition py_round :: "real \<Rightarrow> nat \<Rightarrow> real" where
  "py_round x n = of_int (round_half_even (x * 10 ^ n)) / 10 ^ n"

text \<open>\<open>np.clip(x, lo, hi)\<close> and \<open>Series.clip(lo, hi)\<close>.\<close>

definition clip :: "real \<Rightarrow> real \<Rightarrow> real \<Rightarrow> real" where
  "clip x lo hi = min (max x lo) hi"

text \<open>\<open>Series.replace(a, b)\<close> on one cell: only a cell equal to \<open>a\<close> changes.\<close>

definition replace_val :: "real \<Rightarrow> real \<Rightarrow> real \<Rightarrow> real" where
  "replace_val a b x = (if x = a then b else x)"

text \<open>
  \<open>pd.cut(x, bins, labels)\<close> with the default \<open>right=True, include_lowest=False\<close>:
  the label of the first interval \<open>(lo, hi]\<close> that holds \<open>x\<close>, and NaN (\<open>None\<close>)
  when no interval does.  A bin edge is a number or \<open>float('inf')\<close>.
\<close>

datatype edge = Edge real | PosInf

fun edge_lt :: "edge \<Rightarrow> real \<Rightarrow> bool" where
  "edge_lt (Edge b) x = (b < x)"
| "edge_lt PosInf x = False"

fun le_edge :: "real \<Rightarrow> edge \<Rightarrow> bool" where
  "le_edge x (Edge b) = (x \<le> b)"
| "le_edge x PosInf = True"

fun pd_cut :: "edge list \<Rightarrow> int list \<Rightarrow> real \<Rightarrow> int option" where
  "pd_cut (lo # hi # bins) (l # labels) x =
     (if edge_lt lo x \<and> le_edge x hi then Some l else pd_cut (hi # bins) labels x)"
| "pd_cut bins labels x = None"

text \<open>
  \<open>.astype(int)\<close> on the categorical column that \<open>pd.cut\<close> returns: pandas raises
  \<open>ValueError\<close> as soon as one cell of the column is NaN.
\<close>

definition astype_int :: "int option list \<Rightarrow> exn + int list" where
  "astype_int col =
     (case those col of
        None \<Rightarrow> Inl (PyError ''ValueError'' ''Cannot convert float NaN to integer'')
      | Some vs \<Rightarrow> Inr vs)"

section \<open>Feature engineering (\<open>feature_engineering.py\<close>)\<close>

text \<open>One row of the input DataFrame: the numeric columns of a user.\<close>

record raw_record =
  running_sessions_count :: real
  runs_last_30_days :: real
  runs_last_90_days :: real
  distance_last_30_days_km :: real
  distance_last_90_days_km :: real
  days_since_last_run :: real
  avg_distance_per_run :: real
  days_on_platform :: real
  days_since_last_login :: real
  avg_heart_rate_last_30_days :: real
  peak_heart_rate_max :: real
  avg_elevation_gain :: real
  avg_pace_min_per_km :: real
  achievement_count :: real
  has_biometrics :: real
  membership_type_id :: real
  race_participation_count :: real

text \<open>The row after \<open>calculate_all_features\<close>: the input columns and the eight new ones.\<close>

record derived_record = raw_record +
  engagement_score :: real
  days_inactive_ratio :: real
  consistency_score :: real
  monthly_activity_rate :: real
  distance_trend :: real
  is_premium :: int
  activity_level :: int
  pace_category :: int

text \<open>\<open>_calculate_engagement_score\<close>, on one row.\<close>

definition calculate_engagement_score :: "raw_record \<Rightarrow> real" where
  "calculate_engagement_score r =
     (let runs_norm = clip (runs_last_90_days r / 30) 0 1;
          distance_norm = clip (distance_last_90_days_km r / 500) 0 1;
          achievements_norm = clip (achievement_count r / 20) 0 1;
          biometrics_norm = has_biometrics r;
          races_norm = clip (race_participation_count r / 10) 0 1;
          score = (runs_norm * 0.35 + distance_norm * 0.25 + achievements_norm * 0.20
                   + biometrics_norm * 0.10 + races_norm * 0.10) * 100
      in py_round score 2)"

text \<open>\<open>_calculate_consistency_score\<close>, on one row.\<close>

definition calculate_consistency_score :: "real \<Rightarrow> real \<Rightarrow> real" where
  "calculate_consistency_score runs_30d runs_90d =
     (let avg_30d = runs_30d;
          avg_90d = runs_90d / 3;
          consistency = (if avg_90d > 0 then 1 - \<bar>avg_30d - avg_90d\<bar> / avg_90d else 0)
      in py_round (clip consistency 0 1) 4)"

definition days_inactive_ratio_of :: "raw_record \<Rightarrow> real" where
  "days_inactive_ratio_of r =
     clip (days_since_last_run r / replace_val 0 1 (days_on_platform r)) 0 1"

definition monthly_activity_rate_of :: "raw_record \<Rightarrow> real" where
  "monthly_activity_rate_of r =
     clip (running_sessions_count r / replace_val 0 1 (days_on_platform r / 30)) 0 50"

definition distance_trend_of :: "raw_record \<Rightarrow> real" where
  "distance_trend_of r =
     (let avg_30d = distance_last_30_days_km r;
          avg_90d = distance_last_90_days_km r / 3
      in clip (if avg_90d > 0 then (avg_30d - avg_90d) / avg_90d else 0) (- 1) 1)"

definition is_premium_of :: "raw_record \<Rightarrow> int" where
  "is_premium_of r = (if membership_type_id r > 1 then 1 else 0)"

definition activity_level_cut :: "raw_record \<Rightarrow> int option" where
  "activity_level_cut r =
     pd_cut [Edge (- 1), Edge 0, Edge 5, Edge 20, Edge 50, PosInf] [0, 1, 2, 3, 4]
       (running_sessions_count r)"

definition pace_category_cut :: "raw_record \<Rightarrow> int option" where
  "pace_category_cut r =
     pd_cut [Edge 0, Edge 5, Edge 6, Edge 7, Edge 8, PosInf] [4, 3, 2, 1, 0]
       (avg_pace_min_per_km r)"

definition add_features :: "raw_record \<Rightarrow> int \<Rightarrow> int \<Rightarrow> derived_record" where
  "add_features r act pace =
     raw_record.extend r
       (derived_record.fields
          (calculate_engagement_score r)
          (days_inactive_ratio_of r)
          (calculate_consistency_score (runs_last_30_days r) (runs_last_90_days r))
          (monthly_activity_rate_of r)
          (distance_trend_of r)
          (is_premium_of r)
          act
          pace)"

text \<open>
  \<open>calculate_all_features\<close>: the DataFrame is the list of its rows.  Every column
  assignment works cell by cell; the two \<open>pd.cut(...).astype(int)\<close> columns are computed
  in the order of the source (activity level, then pace category) and either raises
  for the whole frame when one of its cells is NaN.
\<close>

definition calculate_all_features :: "raw_record list \<Rightarrow> exn + derived_record list" where
  "calculate_all_features df =
     bindE (astype_int (map activity_level_cut df)) (\<lambda>acts.
     bindE (astype_int (map pace_category_cut df)) (\<lambda>paces.
       Inr (map (\<lambda>(r, act, pace). add_features r act pace) (zip df (zip acts paces)))))"

text \<open>The third user of the self-test at the end of \<open>feature_engineering.py\<close>.\<close>

definition sample_user3 :: raw_record where
  "sample_user3 =
     \<lparr> running_sessions_count = 2, runs_last_30_days = 0, runs_last_90_days = 2,
       distance_last_30_days_km = 0, distance_last_90_days_km = 20,
       days_since_last_run = 90, avg_distance_per_run = 10, days_on_platform = 90,
       days_since_last_login = 60, avg_heart_rate_last_30_days = 0,
       peak_heart_rate_max = 0, avg_elevation_gain = 0, avg_pace_min_per_km = 0,
       achievement_count = 0, has_biometrics = 0, membership_type_id = 1,
       race_participation_count = 0 \<rparr>"

text \<open>The first user of the same self-test.\<close>

definition sample_user1 :: raw_record where
  "sample_user1 =
     \<lparr> running_sessions_count = 50, runs_last_30_days = 15, runs_last_90_days = 45,
       distance_last_30_days_km = 150, distance_last_90_days_km = 450,
       days_since_last_run = 1, avg_distance_per_run = 10, days_on_platform = 365,
       days_since_last_login = 1, avg_heart_rate_last_30_days = 145,
       peak_heart_rate_max = 180, avg_elevation_gain = 50, avg_pace_min_per_km = 6,
       achievement_count = 15, has_biometrics = 1, membership_type_id = 2,
       race_participation_count = 5 \<rparr>"

section \<open>Model loader (\<open>model_loader.py\<close>)\<close>

text \<open>
  Values of a feature dict as they arrive from JSON: \<open>None\<close>, a number (int, float or
  bool) or a string.
\<close>

datatype pyval = PyNone | PyNum real | PyStr string

type_synonym features = "string \<rightharpoonup> pyval"

text \<open>\<open>d.get(k, default)\<close> and \<open>d.get(k)\<close>, whose default is \<open>None\<close>.\<close>

definition dict_get :: "('k \<rightharpoonup> 'v) \<Rightarrow> 'k \<Rightarrow> 'v \<Rightarrow> 'v" where
  "dict_get d k dflt = (case d k of None \<Rightarrow> dflt | Some v \<Rightarrow> v)"

text \<open>The one-row DataFrame \<open>pd.DataFrame([features_list], columns=feature_names)\<close>.\<close>

record dataframe =
  df_columns :: "string list"
  df_row :: "pyval list"

text \<open>
  A trained scikit-learn estimator is opaque: what the service uses of it are the calls
  \<open>predict(X)[0]\<close> and \<open>predict_proba(X)[0, 1]\<close>, which may raise, and the attribute
  \<open>feature_importances_\<close>, which only tree models have.  A fitted scaler is its
  \<open>transform\<close>.  A pickle file holds any of the three kinds of object.
\<close>

record estimator =
  predict :: "real list \<Rightarrow> exn + real"
  predict_proba :: "(real list \<Rightarrow> exn + real) option"
  feature_importances :: "real list option"

datatype artifact =
    Estimator estimator
  | Scaler "dataframe \<Rightarrow> exn + real list"
  | FeatureNames "string list"

text \<open>
  The models directory: a path with no file maps to \<open>None\<close>, an existing file to what
  \<open>joblib.load\<close> makes of it.
\<close>

type_synonym filesystem = "string \<rightharpoonup> (exn + artifact)"

record model_loader =
  models_dir :: string
  model_version :: string
  models :: "string \<rightharpoonup> artifact"
  scalers :: "string \<rightharpoonup> artifact"
  feature_names :: "string \<rightharpoonup> artifact"

text \<open>\<open>ModelLoader.__init__\<close>.\<close>

definition init_model_loader :: "string \<Rightarrow> string \<Rightarrow> model_loader" where
  "init_model_loader dir version =
     \<lparr> models_dir = dir, model_version = version,
       models = Map.empty, scalers = Map.empty, feature_names = Map.empty \<rparr>"

definition model_path :: "model_loader \<Rightarrow> string \<Rightarrow> string" where
  "model_path ld model_name =
     models_dir ld @ ''/'' @ model_name @ ''_'' @ model_version ld @ ''.pkl''"

text \<open>\<open>_load_model\<close>.\<close>

definition load_model :: "filesystem \<Rightarrow> model_loader \<Rightarrow> string \<Rightarrow> exn + artifact" where
  "load_model fs ld model_name =
     (case fs (model_path ld model_name) of
        None \<Rightarrow>
          Inl (PyError ''FileNotFoundError'' (''Model not found: '' @ model_path ld model_name))
      | Some loaded \<Rightarrow> loaded)"

text \<open>
  \<open>load_all_models\<close>: six assignments inside one \<open>try\<close>.  The loader object is mutated
  by each assignment that completes; the \<open>except\<close> branch only logs and returns
  \<open>False\<close>.  The result is the returned flag and the loader as the call leaves it.
\<close>

definition load_all_models :: "filesystem \<Rightarrow> model_loader \<Rightarrow> bool \<times> model_loader" where
  "load_all_models fs ld0 =
     (case load_model fs ld0 ''churn_model'' of Inl e \<Rightarrow> (False, ld0) | Inr m1 \<Rightarrow>
     (let ld1 = ld0\<lparr>models := (models ld0)(''churn'' \<mapsto> m1)\<rparr> in
     (case load_model fs ld1 ''churn_scaler'' of Inl e \<Rightarrow> (False, ld1) | Inr s1 \<Rightarrow>
     (let ld2 = ld1\<lparr>scalers := (scalers ld1)(''churn'' \<mapsto> s1)\<rparr> in
     (case load_model fs ld2 ''churn_features'' of Inl e \<Rightarrow> (False, ld2) | Inr f1 \<Rightarrow>
     (let ld3 = ld2\<lparr>feature_names := (feature_names ld2)(''churn'' \<mapsto> f1)\<rparr> in
     (case load_model fs ld3 ''ltv_model'' of Inl e \<Rightarrow> (False, ld3) | Inr m2 \<Rightarrow>
     (let ld4 = ld3\<lparr>models := (models ld3)(''ltv'' \<mapsto> m2)\<rparr> in
     (case load_model fs ld4 ''ltv_scaler'' of Inl e \<Rightarrow> (False, ld4) | Inr s2 \<Rightarrow>
     (let ld5 = ld4\<lparr>scalers := (scalers ld4)(''ltv'' \<mapsto> s2)\<rparr> in
     (case load_model fs ld5 ''ltv_features'' of Inl e \<Rightarrow> (False, ld5) | Inr f2 \<Rightarrow>
     (let ld6 = ld5\<lparr>feature_names := (feature_names ld5)(''ltv'' \<mapsto> f2)\<rparr> in
      (True, ld6)))))))))))))"

definition get_model :: "model_loader \<Rightarrow> string \<Rightarrow> artifact option" where
  "get_model ld model_type = models ld model_type"

definition get_scaler :: "model_loader \<Rightarrow> string \<Rightarrow> artifact option" where
  "get_scaler ld model_type = scalers ld model_type"

definition get_feature_names :: "model_loader \<Rightarrow> string \<Rightarrow> artifact option" where
  "get_feature_names ld model_type = feature_names ld model_type"

text \<open>
  The six artifacts in the order in which \<open>load_all_models\<close> loads them, each with the
  getter that reads the slot it is stored in.
\<close>

definition load_order :: "(string \<times> (model_loader \<Rightarrow> artifact option)) list" where
  "load_order =
     [(''churn_model'', \<lambda>ld. get_model ld ''churn''),
      (''churn_scaler'', \<lambda>ld. get_scaler ld ''churn''),
      (''churn_features'', \<lambda>ld. get_feature_names ld ''churn''),
      (''ltv_model'', \<lambda>ld. get_model ld ''ltv''),
      (''ltv_scaler'', \<lambda>ld. get_scaler ld ''ltv''),
      (''ltv_features'', \<lambda>ld. get_feature_names ld ''ltv'')]"

section \<open>Prediction engine (\<open>prediction_engine.py\<close>)\<close>

text \<open>
  Attribute access and calls on what the loader returns.  A missing artifact is
  \<open>None\<close>, and an object of the wrong kind has no such method: both raise
  \<open>AttributeError\<close>.  Iterating over something that is not a list raises \<open>TypeError\<close>.
  Messages that the interpreter writes are shortened.
\<close>

definition scaler_transform :: "artifact option \<Rightarrow> dataframe \<Rightarrow> exn + real list" where
  "scaler_transform scaler X =
     (case scaler of
        Some (Scaler transform) \<Rightarrow> transform X
      | _ \<Rightarrow> Inl (PyError ''AttributeError'' ''object has no attribute transform''))"

definition model_predict_proba :: "artifact option \<Rightarrow> real list \<Rightarrow> exn + real" where
  "model_predict_proba model X_scaled =
     (case model of
        Some (Estimator est) \<Rightarrow>
          (case predict_proba est of
             Some call \<Rightarrow> call X_scaled
           | None \<Rightarrow> Inl (PyError ''AttributeError'' ''object has no attribute predict_proba''))
      | _ \<Rightarrow> Inl (PyError ''AttributeError'' ''object has no attribute predict_proba''))"

definition model_predict :: "artifact option \<Rightarrow> real list \<Rightarrow> exn + real" where
  "model_predict model X_scaled =
     (case model of
        Some (Estimator est) \<Rightarrow> predict est X_scaled
      | _ \<Rightarrow> Inl (PyError ''AttributeError'' ''object has no attribute predict''))"

text \<open>\<open>hasattr(model, 'feature_importances_')\<close> and the attribute itself.\<close>

definition model_feature_importances :: "artifact option \<Rightarrow> real list option" where
  "model_feature_importances model =
     (case model of Some (Estimator est) \<Rightarrow> feature_importances est | _ \<Rightarrow> None)"

text \<open>\<open>int(x)\<close> of a float truncates towards zero.\<close>

definition py_int :: "real \<Rightarrow> int" where
  "py_int x = (if 0 \<le> x then \<lfloor>x\<rfloor> else \<lceil>x\<rceil>)"

text \<open>
  \<open>float(v)\<close> of a DataFrame cell.  How the builtin reads a string as a number is not
  part of the service; it is the parameter \<open>str_float\<close> (\<open>None\<close> when the builtin raises).
\<close>

definition py_float :: "(string \<Rightarrow> real option) \<Rightarrow> pyval \<Rightarrow> exn + real" where
  "py_float str_float v =
     (case v of
        PyNum x \<Rightarrow> Inr x
      | PyNone \<Rightarrow> Inl (PyError ''TypeError'' ''float() argument must be a string or a real number'')
      | PyStr s \<Rightarrow>
          (case str_float s of
             Some x \<Rightarrow> Inr x
           | None \<Rightarrow> Inl (PyError ''ValueError'' (''could not convert string to float: '' @ s))))"

text \<open>\<open>X.iloc[0, i]\<close>.\<close>

definition iloc0 :: "dataframe \<Rightarrow> nat \<Rightarrow> exn + pyval" where
  "iloc0 X i =
     (if i < length (df_row X) then Inr (df_row X ! i)
      else Inl (PyError ''IndexError'' ''single positional indexer is out-of-bounds''))"

text \<open>\<open>_prepare_features\<close>.\<close>

definition prepare_features :: "model_loader \<Rightarrow> features \<Rightarrow> string \<Rightarrow> exn + dataframe" where
  "prepare_features ld features_dict model_type =
     (case get_feature_names ld model_type of
        Some (FeatureNames names) \<Rightarrow>
          Inr \<lparr> df_columns = names,
                df_row = map (\<lambda>feature_name. dict_get features_dict feature_name (PyNum 0)) names \<rparr>
      | _ \<Rightarrow> Inl (PyError ''TypeError'' ''object is not iterable''))"

record fi_entry =
  feature_name :: string
  feature_value :: real
  importance_score :: real
  rank :: nat

text \<open>
  The loop of \<open>_calculate_feature_importance\<close> over
  \<open>enumerate(zip(feature_names, importances))\<close>, started at index \<open>i\<close>.
\<close>

fun importance_entries ::
  "(string \<Rightarrow> real option) \<Rightarrow> dataframe \<Rightarrow> nat \<Rightarrow> (string \<times> real) list \<Rightarrow> exn + fi_entry list"
where
  "importance_entries str_float X i [] = Inr []"
| "importance_entries str_float X i ((name, importance) # rest) =
     bindE (iloc0 X i) (\<lambda>cell.
     bindE (py_float str_float cell) (\<lambda>v.
     bindE (importance_entries str_float X (i + 1) rest) (\<lambda>entries.
       Inr (\<lparr> feature_name = name, feature_value = v,
               importance_score = py_round importance 4, rank = i + 1 \<rparr> # entries))))"

text \<open>
  \<open>list.sort(key=..., reverse=True)\<close>: a stable sort into descending key order; entries
  with equal keys keep their order.
\<close>

definition sort_reverse :: "('a \<Rightarrow> real) \<Rightarrow> 'a list \<Rightarrow> 'a list" where
  "sort_reverse key xs = sort_key (\<lambda>x. - key x) xs"

text \<open>\<open>_calculate_feature_importance\<close>.\<close>

definition calculate_feature_importance ::
  "(string \<Rightarrow> real option) \<Rightarrow> model_loader \<Rightarrow> artifact option \<Rightarrow> dataframe \<Rightarrow> string \<Rightarrow> nat
     \<Rightarrow> exn + fi_entry list"
where
  "calculate_feature_importance str_float ld model X model_type top_n =
     (case model_feature_importances model of
        None \<Rightarrow> Inr []
      | Some importances \<Rightarrow>
          (case get_feature_names ld model_type of
             Some (FeatureNames names) \<Rightarrow>
               bindE (importance_entries str_float X 0 (zip names importances)) (\<lambda>entries.
                 Inr (take top_n (sort_reverse importance_score entries)))
           | _ \<Rightarrow> Inl (PyError ''TypeError'' ''object is not iterable'')))"

record prediction_result =
  feature_importance :: "fi_entry list"
  model_version_used :: string
  predicted_at :: string

record churn_result = prediction_result +
  prediction :: int
  probability :: real
  risk_level :: string
  confidence_score :: real

record ltv_result = prediction_result +
  ltv_value :: real
  ltv_category :: string

text \<open>The \<open>if/elif\<close> chains that name the risk level and the LTV category.\<close>

definition churn_risk_level :: "real \<Rightarrow> string" where
  "churn_risk_level p =
     (if p \<ge> 0.7 then ''HIGH''
      else if p \<ge> 0.4 then ''MEDIUM''
      else ''LOW'')"

definition ltv_category_of :: "real \<Rightarrow> string" where
  "ltv_category_of ltv =
     (if ltv \<ge> 500 then ''HIGH''
      else if ltv \<ge> 200 then ''MEDIUM''
      else if ltv > 0 then ''LOW''
      else ''ZERO'')"

text \<open>
  \<open>predict_churn\<close>.  \<open>now\<close> is what \<open>datetime.now().isoformat()\<close> returns during the
  call.  The \<open>except\<close> clause logs and re-raises, so the exception is the result.
\<close>

definition predict_churn ::
  "(string \<Rightarrow> real option) \<Rightarrow> model_loader \<Rightarrow> string \<Rightarrow> features \<Rightarrow> exn + churn_result"
where
  "predict_churn str_float ld now features_dict =
     bindE (prepare_features ld features_dict ''churn'') (\<lambda>X.
     bindE (scaler_transform (get_scaler ld ''churn'') X) (\<lambda>X_scaled.
     bindE (model_predict_proba (get_model ld ''churn'') X_scaled) (\<lambda>probability.
     bindE (model_predict (get_model ld ''churn'') X_scaled) (\<lambda>label.
     bindE (calculate_feature_importance str_float ld (get_model ld ''churn'') X ''churn'' 10)
       (\<lambda>importance.
       Inr \<lparr> feature_importance = importance,
             model_version_used = model_version ld,
             predicted_at = now,
             prediction = py_int label,
             probability = py_round probability 4,
             risk_level = churn_risk_level probability,
             confidence_score = py_round (max probability (1 - probability)) 4 \<rparr>)))))"

text \<open>\<open>predict_ltv\<close>.\<close>

definition predict_ltv ::
  "(string \<Rightarrow> real option) \<Rightarrow> model_loader \<Rightarrow> string \<Rightarrow> features \<Rightarrow> exn + ltv_result"
where
  "predict_ltv str_float ld now features_dict =
     bindE (prepare_features ld features_dict ''ltv'') (\<lambda>X.
     bindE (scaler_transform (get_scaler ld ''ltv'') X) (\<lambda>X_scaled.
     bindE (model_predict (get_model ld ''ltv'') X_scaled) (\<lambda>raw_value.
     let ltv = max raw_value 0 in
     bindE (calculate_feature_importance str_float ld (get_model ld ''ltv'') X ''ltv'' 10)
       (\<lambda>importance.
       Inr \<lparr> feature_importance = importance,
             model_version_used = model_version ld,
             predicted_at = now,
             ltv_value = py_round ltv 2,
             ltv_category = ltv_category_of ltv \<rparr>))))"

text \<open>
  One entry of the list \<open>predict_batch\<close> returns: the dict with \<open>user_id\<close>, \<open>churn\<close> and
  \<open>ltv\<close>, or the dict with \<open>user_id\<close> and \<open>error\<close>.
\<close>

datatype batch_entry =
    is_BatchOk: BatchOk (entry_user_id: pyval) (entry_churn: churn_result) (entry_ltv: ltv_result)
  | is_BatchError: BatchError (entry_user_id: pyval) (entry_error: string)

text \<open>
  The body of the loop of \<open>predict_batch\<close> for one user.  \<open>clock\<close> lists the successive
  readings of \<open>datetime.now().isoformat()\<close> and \<open>k\<close> counts the readings taken so far;
  a prediction reads the clock once, as its last step, so only when it does not raise.
  The result is the appended entry and the new count.
\<close>

definition batch_step ::
  "(string \<Rightarrow> real option) \<Rightarrow> model_loader \<Rightarrow> (nat \<Rightarrow> string) \<Rightarrow> nat \<Rightarrow> features
     \<Rightarrow> batch_entry \<times> nat"
where
  "batch_step str_float ld clock k user_features =
     (case predict_churn str_float ld (clock k) user_features of
        Inl e \<Rightarrow> (BatchError (dict_get user_features ''user_id'' PyNone) (exn_str e), k)
      | Inr churn_res \<Rightarrow>
          (case predict_ltv str_float ld (clock (k + 1)) user_features of
             Inl e \<Rightarrow> (BatchError (dict_get user_features ''user_id'' PyNone) (exn_str e), k + 1)
           | Inr ltv_res \<Rightarrow>
               (BatchOk (dict_get user_features ''user_id'' PyNone) churn_res ltv_res, k + 2)))"

fun predict_batch_from ::
  "(string \<Rightarrow> real option) \<Rightarrow> model_loader \<Rightarrow> (nat \<Rightarrow> string) \<Rightarrow> nat \<Rightarrow> features list
     \<Rightarrow> batch_entry list"
where
  "predict_batch_from str_float ld clock k [] = []"
| "predict_batch_from str_float ld clock k (user_features # rest) =
     (let (entry, k') = batch_step str_float ld clock k user_features
      in entry # predict_batch_from str_float ld clock k' rest)"

text \<open>\<open>predict_batch\<close>.\<close>

definition predict_batch ::
  "(string \<Rightarrow> real option) \<Rightarrow> model_loader \<Rightarrow> (nat \<Rightarrow> string) \<Rightarrow> features list \<Rightarrow> batch_entry list"
where
  "predict_batch str_float ld clock users_features =
     predict_batch_from str_float ld clock 0 users_features"

section \<open>Concrete inputs\<close>

text \<open>
  A small artifact set used to run the definitions: two features \<open>a\<close> and \<open>b\<close>, a
  scaler that passes numbers through and raises on anything else, and an estimator
  that returns the sum of the scaled features and has feature importances.
\<close>

fun nums_of :: "pyval list \<Rightarrow> real list option" where
  "nums_of [] = Some []"
| "nums_of (PyNum x # vs) = map_option ((#) x) (nums_of vs)"
| "nums_of (v # vs) = None"

definition ex_transform :: "dataframe \<Rightarrow> exn + real list" where
  "ex_transform X =
     (case nums_of (df_row X) of
        None \<Rightarrow> Inl (PyError ''ValueError'' ''could not convert string to float'')
      | Some xs \<Rightarrow> Inr xs)"

definition ex_estimator :: estimator where
  "ex_estimator =
     \<lparr> predict = (\<lambda>xs. Inr (sum_list xs)),
       predict_proba = Some (\<lambda>xs. Inr (sum_list xs)),
       feature_importances = Some [0.1, 0.9] \<rparr>"

definition ex_loader :: model_loader where
  "ex_loader =
     \<lparr> models_dir = ''models'', model_version = ''v1.0.0'',
       models = [''churn'' \<mapsto> Estimator ex_estimator, ''ltv'' \<mapsto> Estimator ex_estimator],
       scalers = [''churn'' \<mapsto> Scaler ex_transform, ''ltv'' \<mapsto> Scaler ex_transform],
       feature_names = [''churn'' \<mapsto> FeatureNames [''a'', ''b''],
                        ''ltv'' \<mapsto> FeatureNames [''a'', ''b'']] \<rparr>"



text \<open>An artifact set whose churn estimator answers differently: it always says 0.9.\<close>

definition ex_loader_drift :: model_loader where
  "ex_loader_drift =
     ex_loader\<lparr>models :=
       [''churn'' \<mapsto> Estimator (ex_estimator\<lparr>predict_proba := Some (\<lambda>xs. Inr 0.9)\<rparr>),
        ''ltv'' \<mapsto> Estimator ex_estimator]\<rparr>"

definition ex_str_float :: "string \<Rightarrow> real option" where
  "ex_str_float s = None"

text \<open>A models directory that holds the three churn artifacts and no LTV artifact.\<close>

definition ex_fs_churn_only :: filesystem where
  "ex_fs_churn_only =
     [''models/churn_model_v1.0.0.pkl'' \<mapsto> Inr (Estimator ex_estimator),
      ''models/churn_scaler_v1.0.0.pkl'' \<mapsto> Inr (Scaler ex_transform),
      ''models/churn_features_v1.0.0.pkl'' \<mapsto> Inr (FeatureNames [''a'', ''b''])]"

text \<open>A batch of three users; the second has a string where a number is expected.\<close>

definition ex_user1 :: features where
  "ex_user1 = [''user_id'' \<mapsto> PyNum 1, ''a'' \<mapsto> PyNum 0.5]"

definition ex_user2 :: features where
  "ex_user2 = [''user_id'' \<mapsto> PyNum 2, ''a'' \<mapsto> PyStr ''fast'']"

definition ex_user3 :: features where
  "ex_user3 = [''user_id'' \<mapsto> PyNum 3, ''a'' \<mapsto> PyNum 0.2]"

definition ex_batch :: "features list" where
  "ex_batch = [ex_user1, ex_user2, ex_user3]"

definition ex_clock :: "nat \<Rightarrow> string" where
  "ex_clock k = ''2025-01-01T00:00:00''"

text \<open>A user of fifteen days on the platform, otherwise the first self-test user.\<close>

definition young_user :: raw_record where
  "young_user = sample_user1\<lparr>running_sessions_count := 10, days_on_platform := 15\<rparr>"

section \<open>Notions used to state the properties\<close>

text \<open>What an importance list says apart from the feature values.\<close>

definition importance_triples :: "fi_entry list \<Rightarrow> (string \<times> real \<times> nat) list" where
  "importance_triples entries = map (\<lambda>e. (feature_name e, importance_score e, rank e)) entries"

section \<open>Properties of feature engineering\<close>

lemma those_map_Some_length: "those xs = Some ys \<Longrightarrow> length ys = length xs"
  by (induction xs arbitrary: ys) (auto split: option.splits)

lemma those_nth: "those xs = Some ys \<Longrightarrow> i < length xs \<Longrightarrow> xs ! i = Some (ys ! i)"
proof (induction xs arbitrary: ys i)
  case Nil
  then show ?case by simp
next
  case (Cons x xs)
  then show ?case by (cases i) (auto split: option.splits)
qed

lemma astype_int_length: "astype_int col = Inr vs \<Longrightarrow> length vs = length col"
  by (auto simp: astype_int_def those_map_Some_length split: option.splits)

lemma astype_int_nth:
  "astype_int col = Inr vs \<Longrightarrow> i < length col \<Longrightarrow> col ! i = Some (vs ! i)"
  by (auto simp: astype_int_def those_nth split: option.splits)

lemma calculate_all_features_nth:
  assumes "calculate_all_features df = Inr out" and "i < length df"
  shows "length out = length df"
    and "\<exists>act pace. activity_level_cut (df ! i) = Some act \<and>
           pace_category_cut (df ! i) = Some pace \<and>
           out ! i = add_features (df ! i) act pace"
proof -
  from assms(1) obtain acts paces where
    a: "astype_int (map activity_level_cut df) = Inr acts" and
    p: "astype_int (map pace_category_cut df) = Inr paces" and
    out: "out = map (\<lambda>(r, act, pace). add_features r act pace) (zip df (zip acts paces))"
    by (auto simp: calculate_all_features_def bindE_def split: sum.splits)
  have la: "length acts = length df" using astype_int_length [OF a] by simp
  have lp: "length paces = length df" using astype_int_length [OF p] by simp
  have ai: "activity_level_cut (df ! i) = Some (acts ! i)"
    using astype_int_nth [OF a, of i] assms(2) by simp
  have pi: "pace_category_cut (df ! i) = Some (paces ! i)"
    using astype_int_nth [OF p, of i] assms(2) by simp
  have oi: "out ! i = add_features (df ! i) (acts ! i) (paces ! i)"
    using assms(2) by (simp add: out la lp)
  show "length out = length df" by (simp add: out la lp)
  show "\<exists>act pace. activity_level_cut (df ! i) = Some act \<and>
           pace_category_cut (df ! i) = Some pace \<and>
           out ! i = add_features (df ! i) act pace"
    using ai pi oi by blast
qed

lemma monthly_activity_rate_add_features:
  "monthly_activity_rate (add_features r act pace) = monthly_activity_rate_of r"
  by (simp add: add_features_def raw_record.defs derived_record.defs)

text \<open>
  C7.  The claim: for every well-typed raw record, also one with
  \<open>avg_pace_min_per_km = 0\<close>, \<open>calculate_all_features\<close> returns the derived features and
  never raises.  The code does raise there: a pace of \<open>0\<close> lies in none of the intervals
  \<open>(0,5], (5,6], (6,7], (7,8], (8,inf)\<close>, so \<open>pd.cut\<close> gives NaN and \<open>.astype(int)\<close>
  raises \<open>ValueError\<close>.  The third user of the module's own self-test is such a record.
\<close>

theorem calculate_all_features_raises_on_zero_pace:
  "calculate_all_features [sample_user3] =
     Inl (PyError ''ValueError'' ''Cannot convert float NaN to integer'')"
  by (simp add: calculate_all_features_def bindE_def astype_int_def activity_level_cut_def
      pace_category_cut_def sample_user3_def)

text \<open>
  C8, as stated, fails: \<open>monthly_activity_rate\<close> is not
  \<open>clip(sessions / max(days_on_platform/30, 1), 0, 50)\<close> for a platform age strictly
  between 0 and 30 days.  Ten sessions in fifteen days give 20, where the formula of
  the claim gives 10.
\<close>

theorem monthly_activity_rate_counterexample:
  "map_sum id (map monthly_activity_rate) (calculate_all_features [young_user]) = Inr [20] \<and>
   clip (running_sessions_count young_user / max (days_on_platform young_user / 30) 1) 0 50 = 10"
  by (simp add: calculate_all_features_def bindE_def astype_int_def activity_level_cut_def
      pace_category_cut_def young_user_def sample_user1_def monthly_activity_rate_add_features
      monthly_activity_rate_of_def clip_def replace_val_def)

text \<open>
  C8, amended: the divisor \<open>days_on_platform / 30\<close> is replaced by 1 only when it is
  exactly 0; every row of the derived frame has
  \<open>monthly_activity_rate = clip(sessions / d, 0, 50)\<close> with that divisor \<open>d\<close>.
\<close>

theorem monthly_activity_rate_formula:
  assumes "calculate_all_features df = Inr out" and "i < length df"
  shows "monthly_activity_rate (out ! i) =
           clip (running_sessions_count (df ! i) /
                 (if days_on_platform (df ! i) = 0 then 1 else days_on_platform (df ! i) / 30))
             0 50"
proof -
  from calculate_all_features_nth(2) [OF assms] obtain act pace
    where "out ! i = add_features (df ! i) act pace" by blast
  then show ?thesis
    by (simp add: monthly_activity_rate_add_features monthly_activity_rate_of_def replace_val_def)
qed

theorem monthly_activity_rate_formula_witness:
  "calculate_all_features [sample_user1] = Inr [add_features sample_user1 3 3] \<and>
   monthly_activity_rate (add_features sample_user1 3 3) = 300 / 73"
proof -
  have h: "calculate_all_features [sample_user1] = Inr [add_features sample_user1 3 3]"
    by (simp add: calculate_all_features_def bindE_def astype_int_def activity_level_cut_def
        pace_category_cut_def sample_user1_def)
  from monthly_activity_rate_formula [OF h, of 0] show ?thesis
    using h by (simp add: sample_user1_def clip_def)
qed

section \<open>Properties of feature alignment and feature importance\<close>

text \<open>
  C4.  With the expected feature names of the model type loaded, \<open>_prepare_features\<close>
  returns a one-row frame whose columns are the expected names, whose row is as long as
  the name list, whose \<open>i\<close>-th cell is the value stored under the \<open>i\<close>-th name when the
  dict has it and \<open>0\<close> otherwise; keys of the dict outside the name list have no effect
  on the frame.
\<close>

theorem prepare_features_aligned:
  assumes "get_feature_names ld model_type = Some (FeatureNames expected_names)"
  shows "\<exists>X. prepare_features ld features_dict model_type = Inr X \<and>
           df_columns X = expected_names \<and>
           length (df_row X) = length expected_names \<and>
           (\<forall>i < length expected_names.
              df_row X ! i = (case features_dict (expected_names ! i) of
                                Some v \<Rightarrow> v | None \<Rightarrow> PyNum 0)) \<and>
           (\<forall>other. (\<forall>n \<in> set expected_names. other n = features_dict n) \<longrightarrow>
                prepare_features ld other model_type = Inr X)"
  using assms by (simp add: prepare_features_def dict_get_def cong: map_cong)

theorem prepare_features_aligned_witness:
  "get_feature_names ex_loader ''churn'' = Some (FeatureNames [''a'', ''b'']) \<and>
   prepare_features ex_loader [''a'' \<mapsto> PyNum 1, ''zzz'' \<mapsto> PyNum 5] ''churn''
     = Inr \<lparr> df_columns = [''a'', ''b''], df_row = [PyNum 1, PyNum 0] \<rparr> \<and>
   prepare_features ex_loader [''a'' \<mapsto> PyNum 1] ''churn''
     = Inr \<lparr> df_columns = [''a'', ''b''], df_row = [PyNum 1, PyNum 0] \<rparr>"
proof -
  let ?fd = "[''a'' \<mapsto> PyNum 1, ''zzz'' \<mapsto> PyNum 5] :: features"
  let ?other = "[''a'' \<mapsto> PyNum 1] :: features"
  have h: "get_feature_names ex_loader ''churn'' = Some (FeatureNames [''a'', ''b''])"
    by (simp add: get_feature_names_def ex_loader_def)
  have agree: "\<forall>n \<in> set [''a'', ''b'']. ?other n = ?fd n" by simp
  from prepare_features_aligned [OF h, of ?fd]
  obtain X where
    X: "prepare_features ex_loader ?fd ''churn'' = Inr X"
    and c: "df_columns X = [''a'', ''b'']"
    and l: "length (df_row X) = length [''a'', ''b'']"
    and n: "\<forall>i < length [''a'', ''b''].
              df_row X ! i = (case ?fd ([''a'', ''b''] ! i) of Some v \<Rightarrow> v | None \<Rightarrow> PyNum 0)"
    and o: "\<forall>other. (\<forall>n \<in> set [''a'', ''b'']. other n = ?fd n) \<longrightarrow>
              prepare_features ex_loader other ''churn'' = Inr X"
    by blast
  from o agree have X': "prepare_features ex_loader ?other ''churn'' = Inr X" by blast
  from n have "df_row X ! 0 = PyNum 1" "df_row X ! 1 = PyNum 0" by simp_all
  with l have "df_row X = [PyNum 1, PyNum 0]"
    by (cases "df_row X"; simp; cases "tl (df_row X)"; simp)
  with c have "X = \<lparr> df_columns = [''a'', ''b''], df_row = [PyNum 1, PyNum 0] \<rparr>"
    by (cases X) simp
  with X X' h show ?thesis by simp
qed

text \<open>
  C5.  The claim: the \<open>rank\<close> of an entry is its 1-based position in the descending
  order of importance.  The code numbers the entries before it sorts them, so \<open>rank\<close> is
  the position of the feature in the model's feature-name list.  With importances
  \<open>[0.1, 0.9]\<close> for the features \<open>[a, b]\<close> the list starts with \<open>b\<close>, whose rank is 2, and
  ends with \<open>a\<close>, whose rank is 1.
\<close>

theorem feature_importance_rank_not_position:
  "calculate_feature_importance ex_str_float ex_loader (get_model ex_loader ''churn'')
      \<lparr> df_columns = [''a'', ''b''], df_row = [PyNum 1, PyNum 2] \<rparr> ''churn'' 10
   = Inr [\<lparr> feature_name = ''b'', feature_value = 2, importance_score = 0.9, rank = 2 \<rparr>,
          \<lparr> feature_name = ''a'', feature_value = 1, importance_score = 0.1, rank = 1 \<rparr>]"
  by (simp add: calculate_feature_importance_def model_feature_importances_def get_model_def
      get_feature_names_def ex_loader_def ex_estimator_def ex_str_float_def bindE_def iloc0_def
      py_float_def sort_reverse_def py_round_def round_half_even_def Let_def)

lemma importance_entries_triples:
  "importance_entries sf X1 i zs = Inr es1 \<Longrightarrow> importance_entries sf' X2 i zs = Inr es2 \<Longrightarrow>
   importance_triples es1 = importance_triples es2"
proof (induction zs arbitrary: i es1 es2)
  case Nil
  then show ?case by (simp add: importance_triples_def)
next
  case (Cons z zs)
  obtain name imp where z: "z = (name, imp)" by (cases z)
  from Cons.prems(1) obtain v1 r1 where
    r1: "importance_entries sf X1 (i + 1) zs = Inr r1" and
    e1: "es1 = \<lparr> feature_name = name, feature_value = v1,
                  importance_score = py_round imp 4, rank = i + 1 \<rparr> # r1"
    by (auto simp: z bindE_def split: sum.splits)
  from Cons.prems(2) obtain v2 r2 where
    r2: "importance_entries sf' X2 (i + 1) zs = Inr r2" and
    e2: "es2 = \<lparr> feature_name = name, feature_value = v2,
                  importance_score = py_round imp 4, rank = i + 1 \<rparr> # r2"
    by (auto simp: z bindE_def split: sum.splits)
  from Cons.IH [OF r1 r2] show ?case
    by (simp add: e1 e2 importance_triples_def)
qed

lemma map_insort_key:
  "map g (insort_key (\<lambda>x. k (g x)) x xs) = insort_key k (g x) (map g xs)"
  by (induction xs) simp_all

lemma map_sort_key: "map g (sort_key (\<lambda>x. k (g x)) xs) = sort_key k (map g xs)"
  by (induction xs) (simp_all add: map_insort_key)

lemma importance_triples_sorted:
  "importance_triples (take n (sort_reverse importance_score es)) =
     take n (sort_key (\<lambda>t. - fst (snd t)) (importance_triples es))"
proof -
  have "map (\<lambda>e. (feature_name e, importance_score e, rank e))
          (sort_key (\<lambda>e. - fst (snd (feature_name e, importance_score e, rank e))) es)
        = sort_key (\<lambda>t. - fst (snd t)) (map (\<lambda>e. (feature_name e, importance_score e, rank e)) es)"
    by (rule map_sort_key)
  then show ?thesis
    by (simp add: importance_triples_def sort_reverse_def take_map [symmetric])
qed

lemma calculate_feature_importance_triples:
  assumes "calculate_feature_importance sf ld model X1 model_type n = Inr fi1"
      and "calculate_feature_importance sf' ld model X2 model_type n = Inr fi2"
  shows "importance_triples fi1 = importance_triples fi2"
proof (cases "model_feature_importances model")
  case None
  with assms show ?thesis by (simp add: calculate_feature_importance_def)
next
  case (Some imps)
  with assms obtain names es1 es2 where
    "importance_entries sf X1 0 (zip names imps) = Inr es1"
    "importance_entries sf' X2 0 (zip names imps) = Inr es2"
    "fi1 = take n (sort_reverse importance_score es1)"
    "fi2 = take n (sort_reverse importance_score es2)"
    by (auto simp: calculate_feature_importance_def bindE_def
        split: option.splits artifact.splits sum.splits)
  then show ?thesis
    using importance_entries_triples [of sf X1 0 "zip names imps" es1 sf' X2 es2]
    by (simp add: importance_triples_sorted)
qed

lemma predict_churn_importance:
  "predict_churn sf ld now fd = Inr res \<Longrightarrow>
   \<exists>X. calculate_feature_importance sf ld (get_model ld ''churn'') X ''churn'' 10
          = Inr (feature_importance res)"
  by (auto simp: predict_churn_def bindE_def split: sum.splits)

lemma predict_ltv_importance:
  "predict_ltv sf ld now fd = Inr res \<Longrightarrow>
   \<exists>X. calculate_feature_importance sf ld (get_model ld ''ltv'') X ''ltv'' 10
          = Inr (feature_importance res)"
  by (auto simp: predict_ltv_def bindE_def Let_def split: sum.splits)

text \<open>Definitions that the concrete computations below unfold.\<close>

lemmas ex_defs = ex_loader_def ex_estimator_def ex_transform_def ex_str_float_def
  ex_user1_def ex_user2_def ex_user3_def
lemmas engine_defs = predict_churn_def predict_ltv_def prepare_features_def scaler_transform_def
  model_predict_proba_def model_predict_def calculate_feature_importance_def
  model_feature_importances_def get_model_def get_scaler_def get_feature_names_def
  bindE_def iloc0_def py_float_def dict_get_def sort_reverse_def py_int_def
lemmas round_defs = py_round_def round_half_even_def Let_def

text \<open>
  C10.  For a fixed loader, any two churn predictions that return, and any two LTV
  predictions that return, carry importance lists with the same
  \<open>(feature_name, importance_score, rank)\<close> triples in the same order, whatever the two
  feature dicts (and clock readings) are: the lists can differ only in \<open>feature_value\<close>.
\<close>

theorem feature_importance_independent_of_input:
  "(predict_churn sf ld now1 fd1 = Inr c1 \<and> predict_churn sf ld now2 fd2 = Inr c2 \<longrightarrow>
      importance_triples (feature_importance c1) = importance_triples (feature_importance c2)) \<and>
   (predict_ltv sf ld now1 fd1 = Inr l1 \<and> predict_ltv sf ld now2 fd2 = Inr l2 \<longrightarrow>
      importance_triples (feature_importance l1) = importance_triples (feature_importance l2))"
proof (intro conjI impI)
  assume "predict_churn sf ld now1 fd1 = Inr c1 \<and> predict_churn sf ld now2 fd2 = Inr c2"
  then show "importance_triples (feature_importance c1) = importance_triples (feature_importance c2)"
    using predict_churn_importance [of sf ld now1 fd1 c1]
      predict_churn_importance [of sf ld now2 fd2 c2]
    by (auto dest: calculate_feature_importance_triples)
next
  assume "predict_ltv sf ld now1 fd1 = Inr l1 \<and> predict_ltv sf ld now2 fd2 = Inr l2"
  then show "importance_triples (feature_importance l1) = importance_triples (feature_importance l2)"
    using predict_ltv_importance [of sf ld now1 fd1 l1]
      predict_ltv_importance [of sf ld now2 fd2 l2]
    by (auto dest: calculate_feature_importance_triples)
qed

theorem feature_importance_independent_of_input_witness:
  "\<not> isl (predict_churn ex_str_float ex_loader ''2025-01-01T00:00:00'' [''a'' \<mapsto> PyNum 0.5]) \<and>
   \<not> isl (predict_churn ex_str_float ex_loader ''2025-01-02T00:00:00''
            [''a'' \<mapsto> PyNum 0.2, ''b'' \<mapsto> PyNum 0.1]) \<and>
   \<not> isl (predict_ltv ex_str_float ex_loader ''2025-01-01T00:00:00'' [''a'' \<mapsto> PyNum 0.5]) \<and>
   \<not> isl (predict_ltv ex_str_float ex_loader ''2025-01-02T00:00:00''
            [''a'' \<mapsto> PyNum 0.2, ''b'' \<mapsto> PyNum 0.1]) \<and>
   importance_triples (feature_importance (projr
       (predict_churn ex_str_float ex_loader ''2025-01-01T00:00:00'' [''a'' \<mapsto> PyNum 0.5])))
     = importance_triples (feature_importance (projr
       (predict_churn ex_str_float ex_loader ''2025-01-02T00:00:00''
          [''a'' \<mapsto> PyNum 0.2, ''b'' \<mapsto> PyNum 0.1]))) \<and>
   importance_triples (feature_importance (projr
       (predict_ltv ex_str_float ex_loader ''2025-01-01T00:00:00'' [''a'' \<mapsto> PyNum 0.5])))
     = importance_triples (feature_importance (projr
       (predict_ltv ex_str_float ex_loader ''2025-01-02T00:00:00''
          [''a'' \<mapsto> PyNum 0.2, ''b'' \<mapsto> PyNum 0.1])))"
proof -
  let ?c1 = "predict_churn ex_str_float ex_loader ''2025-01-01T00:00:00'' [''a'' \<mapsto> PyNum 0.5]"
  let ?c2 = "predict_churn ex_str_float ex_loader ''2025-01-02T00:00:00''
               [''a'' \<mapsto> PyNum 0.2, ''b'' \<mapsto> PyNum 0.1]"
  let ?l1 = "predict_ltv ex_str_float ex_loader ''2025-01-01T00:00:00'' [''a'' \<mapsto> PyNum 0.5]"
  let ?l2 = "predict_ltv ex_str_float ex_loader ''2025-01-02T00:00:00''
               [''a'' \<mapsto> PyNum 0.2, ''b'' \<mapsto> PyNum 0.1]"
  have c1: "\<not> isl ?c1" by (simp add: ex_defs engine_defs round_defs)
  have c2: "\<not> isl ?c2" by (simp add: ex_defs engine_defs round_defs)
  have l1: "\<not> isl ?l1" by (simp add: ex_defs engine_defs round_defs)
  have l2: "\<not> isl ?l2" by (simp add: ex_defs engine_defs round_defs)
  have e: "?c1 = Inr (projr ?c1)" "?c2 = Inr (projr ?c2)" "?l1 = Inr (projr ?l1)"
    "?l2 = Inr (projr ?l2)"
    using c1 c2 l1 l2 by simp_all
  from feature_importance_independent_of_input
    [of ex_str_float ex_loader "''2025-01-01T00:00:00''" "[''a'' \<mapsto> PyNum 0.5]" "projr ?c1"
        "''2025-01-02T00:00:00''" "[''a'' \<mapsto> PyNum 0.2, ''b'' \<mapsto> PyNum 0.1]" "projr ?c2"
        "projr ?l1" "projr ?l2"] e
  have "importance_triples (feature_importance (projr ?c1))
          = importance_triples (feature_importance (projr ?c2))"
    and "importance_triples (feature_importance (projr ?l1))
          = importance_triples (feature_importance (projr ?l2))"
    by blast+
  with c1 c2 l1 l2 show ?thesis by blast
qed

section \<open>Properties of the two predictions\<close>




text \<open>
  C3.  When feature alignment, the scaler and the model call succeed, with \<open>raw\<close> the
  output of \<open>predict\<close> on the scaled vector, \<open>predict_ltv\<close> returns a result computed from
  the clamped value \<open>max(raw, 0)\<close>: the category is \<open>HIGH\<close> iff the value is at least 500,
  \<open>MEDIUM\<close> iff it is in \<open>[200, 500)\<close>, \<open>LOW\<close> iff it is in \<open>(0, 200)\<close> and \<open>ZERO\<close> iff it
  is 0; the \<open>ltv_value\<close> field is the value rounded to two decimals.
\<close>

theorem predict_ltv_clamp_and_category:
  assumes "prepare_features ld fd ''ltv'' = Inr X"
    and "scaler_transform (get_scaler ld ''ltv'') X = Inr X_scaled"
    and "model_predict (get_model ld ''ltv'') X_scaled = Inr raw"
    and "calculate_feature_importance sf ld (get_model ld ''ltv'') X ''ltv'' 10 = Inr fi"
  shows "\<exists>res. predict_ltv sf ld now fd = Inr res \<and>
           ltv_value res = py_round (max raw 0) 2 \<and>
           (ltv_category res = ''HIGH'' \<longleftrightarrow> max raw 0 \<ge> 500) \<and>
           (ltv_category res = ''MEDIUM'' \<longleftrightarrow> 200 \<le> max raw 0 \<and> max raw 0 < 500) \<and>
           (ltv_category res = ''LOW'' \<longleftrightarrow> 0 < max raw 0 \<and> max raw 0 < 200) \<and>
           (ltv_category res = ''ZERO'' \<longleftrightarrow> max raw 0 = 0)"
  using assms by (auto simp add: predict_ltv_def bindE_def ltv_category_of_def Let_def)

theorem predict_ltv_clamp_and_category_witness:
  "prepare_features ex_loader [''a'' \<mapsto> PyNum 500] ''ltv''
     = Inr \<lparr> df_columns = [''a'', ''b''], df_row = [PyNum 500, PyNum 0] \<rparr> \<and>
   scaler_transform (get_scaler ex_loader ''ltv'')
     \<lparr> df_columns = [''a'', ''b''], df_row = [PyNum 500, PyNum 0] \<rparr> = Inr [500, 0] \<and>
   model_predict (get_model ex_loader ''ltv'') [500, 0] = Inr 500 \<and>
   map_sum id ltv_category
     (predict_ltv ex_str_float ex_loader ''2025-01-01T00:00:00'' [''a'' \<mapsto> PyNum 500])
     = Inr ''HIGH''"
proof -
  let ?X = "\<lparr> df_columns = [''a'', ''b''], df_row = [PyNum 500, PyNum 0] \<rparr>"
  let ?fi = "[\<lparr> feature_name = ''b'', feature_value = 0, importance_score = 0.9, rank = 2 \<rparr>,
          \<lparr> feature_name = ''a'', feature_value = 500, importance_score = 0.1, rank = 1 \<rparr>]"
  have h1: "prepare_features ex_loader [''a'' \<mapsto> PyNum 500] ''ltv'' = Inr ?X"
    by (simp add: ex_defs engine_defs)
  have h2: "scaler_transform (get_scaler ex_loader ''ltv'') ?X = Inr [500, 0]"
    by (simp add: ex_defs engine_defs)
  have h3: "model_predict (get_model ex_loader ''ltv'') [500, 0] = Inr 500"
    by (simp add: ex_defs engine_defs)
  have h4: "calculate_feature_importance ex_str_float ex_loader (get_model ex_loader ''ltv'')
      ?X ''ltv'' 10 = Inr ?fi"
    by (simp add: ex_defs engine_defs round_defs)
  from predict_ltv_clamp_and_category [OF h1 h2 h3 h4, of "''2025-01-01T00:00:00''"] obtain res where
    "predict_ltv ex_str_float ex_loader ''2025-01-01T00:00:00'' [''a'' \<mapsto> PyNum 500] = Inr res"
    "ltv_category res = ''HIGH''"
    by auto
  then show ?thesis using h1 h2 h3 by simp
qed

lemma predict_churn_clock:
  "predict_churn sf ld now2 fd =
     map_sum id (\<lambda>r. r\<lparr>predicted_at := now2\<rparr>) (predict_churn sf ld now1 fd)"
  by (simp add: predict_churn_def bindE_def split: sum.splits)

lemma predict_ltv_clock:
  "predict_ltv sf ld now2 fd =
     map_sum id (\<lambda>r. r\<lparr>predicted_at := now2\<rparr>) (predict_ltv sf ld now1 fd)"
  by (simp add: predict_ltv_def bindE_def Let_def split: sum.splits)

lemma isl_predict_churn_clock: "isl (predict_churn sf ld now2 fd) = isl (predict_churn sf ld now1 fd)"
  by (subst predict_churn_clock [of sf ld now2 fd now1]) (simp add: isl_map_sum)

lemma isl_predict_ltv_clock: "isl (predict_ltv sf ld now2 fd) = isl (predict_ltv sf ld now1 fd)"
  by (subst predict_ltv_clock [of sf ld now2 fd now1]) (simp add: isl_map_sum)




text \<open>
  Without agreement of the artifact's answers nothing of the kind holds: at one and the
  same clock reading the two artifact sets give different probabilities.
\<close>

lemma predict_churn_other_answers:
  "map_sum id probability
     (predict_churn ex_str_float ex_loader ''2025-01-01T00:00:00'' ex_user1) = Inr 0.5 \<and>
   map_sum id probability
     (predict_churn ex_str_float ex_loader_drift ''2025-01-01T00:00:00'' ex_user1) = Inr 0.9"
  by (simp add: ex_loader_drift_def ex_defs engine_defs round_defs churn_risk_level_def)



section \<open>Properties of batch prediction\<close>

lemma predict_batch_from_length:
  "length (predict_batch_from sf ld clock k us) = length us"
  by (induction us arbitrary: k) (simp_all add: split_beta Let_def)

lemma predict_batch_from_nth:
  "i < length us \<Longrightarrow>
   \<exists>k'. predict_batch_from sf ld clock k us ! i = fst (batch_step sf ld clock k' (us ! i))"
proof (induction us arbitrary: k i)
  case Nil
  then show ?case by simp
next
  case (Cons u us)
  show ?case
  proof (cases i)
    case 0
    then show ?thesis by (auto simp: split_beta Let_def)
  next
    case (Suc j)
    with Cons.prems have "j < length us" by simp
    from Cons.IH [OF this, of "snd (batch_step sf ld clock k u)"] Suc
    show ?thesis by (simp add: split_beta Let_def)
  qed
qed

lemma batch_step_user_id:
  "entry_user_id (fst (batch_step sf ld clock k u)) = dict_get u ''user_id'' PyNone"
  by (simp add: batch_step_def split: sum.splits)

lemma batch_step_is_error:
  "is_BatchError (fst (batch_step sf ld clock k u)) \<longleftrightarrow>
     isl (predict_churn sf ld now u) \<or> isl (predict_ltv sf ld now u)"
proof -
  have "is_BatchError (fst (batch_step sf ld clock k u)) \<longleftrightarrow>
     isl (predict_churn sf ld (clock k) u) \<or> isl (predict_ltv sf ld (clock (k + 1)) u)"
    by (simp add: batch_step_def split: sum.splits)
  then show ?thesis
    using isl_predict_churn_clock [of sf ld "clock k" u now]
      isl_predict_ltv_clock [of sf ld "clock (k + 1)" u now] by simp
qed

lemma batch_step_ok:
  "fst (batch_step sf ld clock k u) = BatchOk uid c l \<Longrightarrow>
     predict_churn sf ld (clock k) u = Inr c \<and> predict_ltv sf ld (clock (k + 1)) u = Inr l"
  by (simp add: batch_step_def split: sum.splits)

lemma batch_step_error:
  "fst (batch_step sf ld clock k u) = BatchError uid msg \<Longrightarrow>
     (\<exists>e. predict_churn sf ld (clock k) u = Inl e \<and> msg = exn_str e) \<or>
     (\<exists>e. \<not> isl (predict_churn sf ld (clock k) u) \<and>
          predict_ltv sf ld (clock (k + 1)) u = Inl e \<and> msg = exn_str e)"
  by (auto simp add: batch_step_def split: sum.splits)

text \<open>
  C1.  \<open>predict_batch\<close> returns one entry per input record, in input order.  The entry
  at index \<open>i\<close> carries the \<open>user_id\<close> of record \<open>i\<close> (\<open>None\<close> when the record has none);
  it is an error entry exactly when the churn or the LTV prediction raises on record
  \<open>i\<close>, and then its message is that of a raised exception; otherwise it holds the
  churn and LTV results of record \<open>i\<close>.  Nothing in entry \<open>i\<close> depends on whether other
  records fail.
\<close>

theorem predict_batch_isolates_failures:
  "length (predict_batch sf ld clock us) = length us \<and>
   (\<forall>i < length us.
      entry_user_id (predict_batch sf ld clock us ! i) = dict_get (us ! i) ''user_id'' PyNone \<and>
      (is_BatchError (predict_batch sf ld clock us ! i) \<longleftrightarrow>
         isl (predict_churn sf ld now (us ! i)) \<or> isl (predict_ltv sf ld now (us ! i))) \<and>
      (case predict_batch sf ld clock us ! i of
         BatchOk uid c l \<Rightarrow>
           (\<exists>k. predict_churn sf ld (clock k) (us ! i) = Inr c \<and>
                predict_ltv sf ld (clock (k + 1)) (us ! i) = Inr l)
       | BatchError uid msg \<Rightarrow>
           (\<exists>t e. (predict_churn sf ld t (us ! i) = Inl e \<or> predict_ltv sf ld t (us ! i) = Inl e) \<and>
                  msg = exn_str e)))"
proof (intro conjI allI impI)
  show "length (predict_batch sf ld clock us) = length us"
    by (simp add: predict_batch_def predict_batch_from_length)
next
  fix i assume i: "i < length us"
  from predict_batch_from_nth [OF i, of sf ld clock 0] obtain k where
    k: "predict_batch sf ld clock us ! i = fst (batch_step sf ld clock k (us ! i))"
    by (auto simp: predict_batch_def)
  show "entry_user_id (predict_batch sf ld clock us ! i) = dict_get (us ! i) ''user_id'' PyNone"
    by (simp add: k batch_step_user_id)
  show "is_BatchError (predict_batch sf ld clock us ! i) \<longleftrightarrow>
         isl (predict_churn sf ld now (us ! i)) \<or> isl (predict_ltv sf ld now (us ! i))"
    by (simp only: k batch_step_is_error [of sf ld clock k "us ! i" now])
  show "case predict_batch sf ld clock us ! i of
         BatchOk uid c l \<Rightarrow>
           (\<exists>k. predict_churn sf ld (clock k) (us ! i) = Inr c \<and>
                predict_ltv sf ld (clock (k + 1)) (us ! i) = Inr l)
       | BatchError uid msg \<Rightarrow>
           (\<exists>t e. (predict_churn sf ld t (us ! i) = Inl e \<or> predict_ltv sf ld t (us ! i) = Inl e) \<and>
                  msg = exn_str e)"
  proof (cases "fst (batch_step sf ld clock k (us ! i))")
    case (BatchOk uid c l)
    from batch_step_ok [OF this] show ?thesis by (auto simp: k BatchOk)
  next
    case (BatchError uid msg)
    from batch_step_error [OF this] show ?thesis by (auto simp: k BatchError)
  qed
qed

theorem predict_batch_isolates_failures_witness:
  "(1::nat) < length ex_batch \<and>
   length (predict_batch ex_str_float ex_loader ex_clock ex_batch) = 3 \<and>
   map is_BatchError (predict_batch ex_str_float ex_loader ex_clock ex_batch) = [False, True, False] \<and>
   map entry_user_id (predict_batch ex_str_float ex_loader ex_clock ex_batch)
     = [PyNum 1, PyNum 2, PyNum 3] \<and>
   isl (predict_churn ex_str_float ex_loader ''2025-01-01T00:00:00'' (ex_batch ! 1))"
proof -
  have e: "predict_batch ex_str_float ex_loader ex_clock ex_batch =
    [fst (batch_step ex_str_float ex_loader ex_clock 0 (ex_batch ! 0)),
     fst (batch_step ex_str_float ex_loader ex_clock 2 (ex_batch ! 1)),
     fst (batch_step ex_str_float ex_loader ex_clock 2 (ex_batch ! 2))]"
    by (simp add: predict_batch_def batch_step_def ex_batch_def ex_clock_def ex_defs engine_defs
        round_defs churn_risk_level_def ltv_category_of_def)
  have l: "(1::nat) < length ex_batch" by (simp add: ex_batch_def)
  from predict_batch_isolates_failures [of ex_str_float ex_loader ex_clock ex_batch "''2025-01-01T00:00:00''"] l
  have "length (predict_batch ex_str_float ex_loader ex_clock ex_batch) = length ex_batch"
    and "is_BatchError (predict_batch ex_str_float ex_loader ex_clock ex_batch ! 1) \<longleftrightarrow>
         isl (predict_churn ex_str_float ex_loader ''2025-01-01T00:00:00'' (ex_batch ! 1)) \<or>
         isl (predict_ltv ex_str_float ex_loader ''2025-01-01T00:00:00'' (ex_batch ! 1))"
    by blast+
  moreover have "map is_BatchError (predict_batch ex_str_float ex_loader ex_clock ex_batch) = [False, True, False]"
    by (subst e) (simp add: batch_step_def ex_batch_def ex_clock_def ex_defs engine_defs
        round_defs churn_risk_level_def ltv_category_of_def)
  moreover have "map entry_user_id (predict_batch ex_str_float ex_loader ex_clock ex_batch)
     = [PyNum 1, PyNum 2, PyNum 3]"
    by (subst e) (simp add: batch_step_user_id ex_batch_def dict_get_def ex_defs)
  moreover have "isl (predict_churn ex_str_float ex_loader ''2025-01-01T00:00:00'' (ex_batch ! 1))"
    by (simp add: ex_batch_def ex_defs engine_defs)
  ultimately show ?thesis using l by (simp add: ex_batch_def)
qed

section \<open>Properties of the model loader\<close>

text \<open>
  C6, as stated, fails: a failed \<open>load_all_models\<close> keeps what it loaded before the
  missing file.  With the three churn artifacts present and \<open>ltv_model\<close> missing, the
  call returns \<open>False\<close> and \<open>get_model('churn')\<close> still returns the churn model.
\<close>

theorem load_all_models_partial_state_counterexample:
  "ex_fs_churn_only (model_path (init_model_loader ''models'' ''v1.0.0'') ''ltv_model'') = None \<and>
   fst (load_all_models ex_fs_churn_only (init_model_loader ''models'' ''v1.0.0'')) = False \<and>
   get_model (snd (load_all_models ex_fs_churn_only (init_model_loader ''models'' ''v1.0.0''))) ''churn''
     = Some (Estimator ex_estimator)"
  by (simp add: load_all_models_def load_model_def model_path_def init_model_loader_def
      ex_fs_churn_only_def get_model_def Let_def)

lemma model_path_update:
  "model_path (ld\<lparr>models := m\<rparr>) n = model_path ld n"
  "model_path (ld\<lparr>scalers := m\<rparr>) n = model_path ld n"
  "model_path (ld\<lparr>feature_names := m\<rparr>) n = model_path ld n"
  by (simp_all add: model_path_def)

lemma load_model_update [simp]:
  "load_model fs (ld\<lparr>models := m\<rparr>) n = load_model fs ld n"
  "load_model fs (ld\<lparr>scalers := m\<rparr>) n = load_model fs ld n"
  "load_model fs (ld\<lparr>feature_names := m\<rparr>) n = load_model fs ld n"
  by (simp_all add: load_model_def model_path_update cong: option.case_cong)

lemma all_less_6: "(\<forall>j<(6::nat). P j) \<longleftrightarrow> P 0 \<and> P 1 \<and> P 2 \<and> P 3 \<and> P 4 \<and> P 5"
proof -
  have "\<And>j::nat. j < 6 \<longleftrightarrow> j = 0 \<or> j = 1 \<or> j = 2 \<or> j = 3 \<or> j = 4 \<or> j = 5" by arith
  then show ?thesis by auto
qed

lemma load_order_nth:
  "load_order ! 0 = (''churn_model'', \<lambda>ld. get_model ld ''churn'')"
  "load_order ! 1 = (''churn_scaler'', \<lambda>ld. get_scaler ld ''churn'')"
  "load_order ! Suc 0 = (''churn_scaler'', \<lambda>ld. get_scaler ld ''churn'')"
  "load_order ! 2 = (''churn_features'', \<lambda>ld. get_feature_names ld ''churn'')"
  "load_order ! 3 = (''ltv_model'', \<lambda>ld. get_model ld ''ltv'')"
  "load_order ! 4 = (''ltv_scaler'', \<lambda>ld. get_scaler ld ''ltv'')"
  "load_order ! 5 = (''ltv_features'', \<lambda>ld. get_feature_names ld ''ltv'')"
  by (simp_all add: load_order_def numeral_eq_Suc)

lemma load_order_length: "length load_order = 6"
  by (simp add: load_order_def)

text \<open>
  C6, amended.  On a fresh loader, when the \<open>k\<close>-th artifact in load order (churn
  model, churn scaler, churn features, LTV model, LTV scaler, LTV features) is the first
  that fails to load, \<open>load_all_models\<close> returns \<open>False\<close>, the getters of the artifacts
  before it return what was loaded, and the getters of the failing artifact and of all
  later ones report not-found.
\<close>

theorem load_all_models_keeps_loaded_prefix:
  assumes k: "k < length load_order"
    and before: "\<forall>j<k. load_model fs (init_model_loader dir version) (fst (load_order ! j)) = Inr (arts j)"
    and missing: "load_model fs (init_model_loader dir version) (fst (load_order ! k)) = Inl e"
  shows "fst (load_all_models fs (init_model_loader dir version)) = False \<and>
         (\<forall>j < length load_order.
            snd (load_order ! j) (snd (load_all_models fs (init_model_loader dir version)))
              = (if j < k then Some (arts j) else None))"
proof -
  let ?ld = "init_model_loader dir version"
  have kc: "k = 0 \<or> k = 1 \<or> k = 2 \<or> k = 3 \<or> k = 4 \<or> k = 5"
    using k by (simp add: load_order_length) arith
  have empty: "models ?ld = Map.empty" "scalers ?ld = Map.empty" "feature_names ?ld = Map.empty"
    by (simp_all add: init_model_loader_def)
  note getters = get_model_def get_scaler_def get_feature_names_def
  from kc show ?thesis
  proof (elim disjE)
    assume "k = 0"
    with missing show ?thesis
      by (simp add: load_order_nth load_order_length all_less_6 load_all_models_def getters empty)
  next
    assume k1: "k = 1"
    with before have "load_model fs ?ld ''churn_model'' = Inr (arts 0)"
      by (simp add: load_order_nth)
    with missing k1 show ?thesis
      by (simp add: load_order_nth load_order_length all_less_6 load_all_models_def getters empty Let_def)
  next
    assume k2: "k = 2"
    with before have "load_model fs ?ld (fst (load_order ! 0)) = Inr (arts 0)"
      "load_model fs ?ld (fst (load_order ! 1)) = Inr (arts 1)" by simp_all
    with missing k2 show ?thesis
      by (simp add: load_order_nth load_order_length all_less_6 load_all_models_def getters empty Let_def)
  next
    assume k3: "k = 3"
    with before have "load_model fs ?ld (fst (load_order ! 0)) = Inr (arts 0)"
      "load_model fs ?ld (fst (load_order ! 1)) = Inr (arts 1)"
      "load_model fs ?ld (fst (load_order ! 2)) = Inr (arts 2)" by simp_all
    with missing k3 show ?thesis
      by (simp add: load_order_nth load_order_length all_less_6 load_all_models_def getters empty Let_def)
  next
    assume k4: "k = 4"
    with before have "load_model fs ?ld (fst (load_order ! 0)) = Inr (arts 0)"
      "load_model fs ?ld (fst (load_order ! 1)) = Inr (arts 1)"
      "load_model fs ?ld (fst (load_order ! 2)) = Inr (arts 2)"
      "load_model fs ?ld (fst (load_order ! 3)) = Inr (arts 3)" by simp_all
    with missing k4 show ?thesis
      by (simp add: load_order_nth load_order_length all_less_6 load_all_models_def getters empty Let_def)
  next
    assume k5: "k = 5"
    with before have "load_model fs ?ld (fst (load_order ! 0)) = Inr (arts 0)"
      "load_model fs ?ld (fst (load_order ! 1)) = Inr (arts 1)"
      "load_model fs ?ld (fst (load_order ! 2)) = Inr (arts 2)"
      "load_model fs ?ld (fst (load_order ! 3)) = Inr (arts 3)"
      "load_model fs ?ld (fst (load_order ! 4)) = Inr (arts 4)" by simp_all
    with missing k5 show ?thesis
      by (simp add: load_order_nth load_order_length all_less_6 load_all_models_def getters empty Let_def)
  qed
qed

theorem load_all_models_keeps_loaded_prefix_witness:
  "(3::nat) < length load_order \<and>
   load_model ex_fs_churn_only (init_model_loader ''models'' ''v1.0.0'') ''ltv_model''
     = Inl (PyError ''FileNotFoundError'' ''Model not found: models/ltv_model_v1.0.0.pkl'') \<and>
   fst (load_all_models ex_fs_churn_only (init_model_loader ''models'' ''v1.0.0'')) = False \<and>
   get_feature_names (snd (load_all_models ex_fs_churn_only (init_model_loader ''models'' ''v1.0.0'')))
     ''churn'' = Some (FeatureNames [''a'', ''b'']) \<and>
   get_model (snd (load_all_models ex_fs_churn_only (init_model_loader ''models'' ''v1.0.0'')))
     ''ltv'' = None"
proof -
  let ?ld = "init_model_loader ''models'' ''v1.0.0''"
  let ?arts = "\<lambda>j::nat. [Estimator ex_estimator, Scaler ex_transform, FeatureNames [''a'', ''b'']] ! j"
  have k: "(3::nat) < length load_order" by (simp add: load_order_length)
  have all_less_3: "\<And>P. (\<forall>j<(3::nat). P j) \<longleftrightarrow> P 0 \<and> P 1 \<and> P 2"
  proof -
    fix P :: "nat \<Rightarrow> bool"
    have "\<And>j::nat. j < 3 \<longleftrightarrow> j = 0 \<or> j = 1 \<or> j = 2" by arith
    then show "(\<forall>j<(3::nat). P j) \<longleftrightarrow> P 0 \<and> P 1 \<and> P 2" by auto
  qed
  have before: "\<forall>j<3. load_model ex_fs_churn_only ?ld (fst (load_order ! j)) = Inr (?arts j)"
    by (simp add: all_less_3 load_order_nth load_model_def model_path_def init_model_loader_def
        ex_fs_churn_only_def)
  have missing: "load_model ex_fs_churn_only ?ld (fst (load_order ! 3))
     = Inl (PyError ''FileNotFoundError'' ''Model not found: models/ltv_model_v1.0.0.pkl'')"
    by (simp add: load_order_nth load_model_def model_path_def init_model_loader_def
        ex_fs_churn_only_def)
  from load_all_models_keeps_loaded_prefix [OF k before missing]
  have f: "fst (load_all_models ex_fs_churn_only ?ld) = False"
    and g: "\<forall>j < length load_order.
            snd (load_order ! j) (snd (load_all_models ex_fs_churn_only ?ld))
              = (if j < 3 then Some (?arts j) else None)"
    by blast+
  from g have "snd (load_order ! 2) (snd (load_all_models ex_fs_churn_only ?ld)) = Some (?arts 2)"
    and "snd (load_order ! 3) (snd (load_all_models ex_fs_churn_only ?ld)) = None"
    by (simp_all add: load_order_length all_less_6)
  then show ?thesis using k f missing by (simp add: load_order_nth load_order_length)
qed

end
